theory Spec2Isabelle
  imports Complex_Main "HOL-Library.Word"
begin

section \<open>Numbers\<close>

text \<open>
  A TypeScript \<open>number\<close> is modelled as a real number: arithmetic is exact, and the
  rounding error of IEEE-754 doubles is not part of this development.  Where the source
  divides, the quotient is an \<open>option\<close>: \<open>None\<close> stands for the non-finite result
  (\<open>Infinity\<close>, \<open>-Infinity\<close> or \<open>NaN\<close>) that JavaScript yields for a zero divisor.
\<close>

definition Math_round :: "real \<Rightarrow> real" where
  \<comment> \<open>\<open>Math.round\<close>: the nearest integer, a tie going towards plus infinity.\<close>
  "Math_round x = real_of_int \<lfloor>x + 1 / 2\<rfloor>"

definition Math_ceil :: "real \<Rightarrow> real" where
  "Math_ceil x = real_of_int \<lceil>x\<rceil>"

definition js_div :: "real \<Rightarrow> real \<Rightarrow> real option" where
  "js_div a b = (if b = 0 then None else Some (a / b))"

section \<open>Strings and thrown values\<close>

text \<open>
  A JavaScript string is a sequence of UTF-16 code units; \<open>js\<close> embeds an ASCII literal.
  A thrown value is either an \<open>Error\<close> object with its message or something else (the
  handlers test \<open>instanceof Error\<close>).  The message text of errors raised by the runtime
  or by a library is not modelled: such an error carries the name of its class.
\<close>

type_synonym js_char = "16 word"
type_synonym js_string = "js_char list"

definition js :: "string \<Rightarrow> js_string" where
  "js s = map (\<lambda>c. of_nat (of_char c)) s"

datatype thrown = Error js_string | NonError

text \<open>\<open>String.prototype.indexOf\<close> and \<open>lastIndexOf\<close> for a single code unit: \<open>-1\<close> if absent.\<close>

fun indexOf :: "js_string \<Rightarrow> js_char \<Rightarrow> int" where
  "indexOf [] c = - 1"
| "indexOf (x # xs) c =
     (if x = c then 0 else (let r = indexOf xs c in if r = - 1 then - 1 else r + 1))"

fun lastIndexOf :: "js_string \<Rightarrow> js_char \<Rightarrow> int" where
  "lastIndexOf [] c = - 1"
| "lastIndexOf (x # xs) c =
     (let r = lastIndexOf xs c
      in if r \<noteq> - 1 then r + 1 else if x = c then 0 else - 1)"

text \<open>
  \<open>String.prototype.slice(start, end)\<close>: a negative index counts from the end, both
  indices are clamped to the string, and the result is empty when the end is not after
  the start.
\<close>

definition slice :: "js_string \<Rightarrow> int \<Rightarrow> int \<Rightarrow> js_string" where
  "slice text s e =
     (let len = int (length text);
          from = (if s < 0 then max (len + s) 0 else min s len);
          to = (if e < 0 then max (len + e) 0 else min e len)
      in take (nat (to - from)) (drop (nat from) text))"

definition lbrace :: js_char where "lbrace = of_nat (of_char CHR ''{'')"
definition rbrace :: js_char where "rbrace = of_nat (of_char CHR ''}'')"

definition cleanJsonResponse :: "js_string \<Rightarrow> thrown + js_string" where
  "cleanJsonResponse text =
     (let startIndex = indexOf text lbrace;
          endIndex = lastIndexOf text rbrace
      in if startIndex = - 1 \<or> endIndex = - 1
         then Inl (Error (js ''No valid JSON object found in response''))
         else Inr (slice text startIndex (endIndex + 1)))"

section \<open>Financial projections (generate-report route)\<close>

text \<open>One entry of the array built by \<open>calculateFinancialProjections\<close>.\<close>

record projection =
  year :: nat
  revenue :: real
  customers :: real
  opex :: real

text \<open>The argument object of \<open>calculateFinancialProjections\<close>.\<close>

record projection_input =
  pi_initialCount :: real
  pi_growthRate :: real
  pi_arpu :: real
  pi_opex :: real

text \<open>
  The body of \<open>for (let year = 1; year <= 5; year++)\<close>.  The loop variables are the
  counter, the running (unrounded) \<open>customers\<close> and \<open>opex\<close>, and the array built so far.
\<close>

function projections_loop ::
  "projection_input \<Rightarrow> nat \<Rightarrow> real \<Rightarrow> real \<Rightarrow> projection list \<Rightarrow> projection list" where
  "projections_loop d yr cust opx projections =
     (if yr \<le> 5 then
        (let rev = cust * pi_arpu d * 12;
             projections' = projections @
               [\<lparr>year = yr, revenue = Math_round rev, customers = Math_round cust,
                 opex = Math_round opx\<rparr>]
         in projections_loop d (yr + 1) (cust * (1 + pi_growthRate d)) (opx * 1.1) projections')
      else projections)"
  by pat_completeness auto
termination
  by (relation "measure (\<lambda>(d, yr, cust, opx, projections). 6 - yr)") auto

declare projections_loop.simps [simp del]

definition calculateFinancialProjections :: "projection_input \<Rightarrow> projection list" where
  "calculateFinancialProjections d = projections_loop d 1 (pi_initialCount d) (pi_opex d) []"

text \<open>The entry pushed in the iteration that starts \<open>k\<close> years after the first one.\<close>

definition entry_at :: "projection_input \<Rightarrow> nat \<Rightarrow> projection" where
  "entry_at d k =
     \<lparr>year = k + 1,
      revenue = Math_round (pi_initialCount d * (1 + pi_growthRate d) ^ k * pi_arpu d * 12),
      customers = Math_round (pi_initialCount d * (1 + pi_growthRate d) ^ k),
      opex = Math_round (pi_opex d * 1.1 ^ k)\<rparr>"

section \<open>Validated request data\<close>

text \<open>
  The object that \<open>businessCaseSchema.parse\<close> returns.  The routes differ in the
  \<open>financials\<close> block only (\<open>totalCost\<close> in the main route, \<open>projectTimelineYears\<close> in
  the timeline-years variant), so the record is parametric in it.
\<close>

record financials_blk =
  totalCost :: real
  capex :: real
  fin_opex :: real

record financials_tl =
  projectTimelineYears :: real
  tl_capex :: real
  tl_opex :: real

record customers_blk =
  initialCount :: real
  growthRate :: real
  arpu :: real

record 'f BusinessCaseData =
  projectName :: js_string
  company :: js_string
  country :: js_string
  industry :: js_string
  financials :: 'f
  customers_data :: customers_blk

text \<open>
  The argument that \<open>POST\<close> of the generate-report route builds for
  \<open>calculateFinancialProjections\<close>: the submitted growth percentage is divided by 100.
\<close>

definition projection_input_of :: "financials_blk BusinessCaseData \<Rightarrow> projection_input" where
  "projection_input_of v =
     \<lparr>pi_initialCount = initialCount (customers_data v),
      pi_growthRate = growthRate (customers_data v) / 100,
      pi_arpu = arpu (customers_data v),
      pi_opex = fin_opex (financials v)\<rparr>"

section \<open>Financial metrics (generate-report route)\<close>

text \<open>\<open>Array.prototype.reduce\<close> with a callback that also receives the index.\<close>

fun reduce_indexed :: "('b \<Rightarrow> 'a \<Rightarrow> nat \<Rightarrow> 'b) \<Rightarrow> 'a list \<Rightarrow> nat \<Rightarrow> 'b \<Rightarrow> 'b" where
  "reduce_indexed f [] i acc = acc"
| "reduce_indexed f (x # xs) i acc = reduce_indexed f xs (i + 1) (f acc x i)"

record FinancialMetrics =
  npv :: real
  irr :: "real option"
  paybackPeriod :: nat
  roi :: "real option"

text \<open>
  The payback loop of the main route: \<open>i\<close> is the index, \<open>cum\<close> the cumulative cash flow
  and \<open>pp\<close> the variable \<open>paybackPeriod\<close> (initially 0); the \<open>break\<close> ends the loop.
\<close>

fun payback_loop :: "projection list \<Rightarrow> nat \<Rightarrow> real \<Rightarrow> nat \<Rightarrow> nat" where
  "payback_loop [] i cum pp = pp"
| "payback_loop (p # ps) i cum pp =
     (let cum' = cum + (revenue p - opex p)
      in if cum' > 0 \<and> pp = 0 then i + 1 else payback_loop ps (i + 1) cum' pp)"

definition calculateFinancialMetrics :: "projection list \<Rightarrow> real \<Rightarrow> FinancialMetrics" where
  "calculateFinancialMetrics projections cpx =
     (let discountRate = 0.1;
          cashFlows = (- cpx) # map (\<lambda>p. revenue p - opex p) projections;
          npv_raw = reduce_indexed (\<lambda>acc cf i. acc + cf / (1 + discountRate) ^ i) cashFlows 0 0;
          totalRevenue = foldl (\<lambda>acc p. acc + revenue p) 0 projections;
          totalOpex = foldl (\<lambda>acc p. acc + opex p) 0 projections;
          roi_raw = map_option (\<lambda>q. q * 100) (js_div (totalRevenue - totalOpex - cpx) cpx);
          irr_raw = map_option (\<lambda>q. q * 100) (js_div (totalRevenue - totalOpex - cpx) (cpx * 5))
      in \<lparr>npv = Math_round npv_raw,
          irr = map_option Math_round irr_raw,
          paybackPeriod = payback_loop projections 0 (- cpx) 0,
          roi = map_option Math_round roi_raw\<rparr>)"

section \<open>The timeline-years variant of the route\<close>

text \<open>
  \<open>generateFinancialProjections\<close>: one entry per year \<open>1 .. projectTimelineYears\<close>; only
  the customer count is rounded here.
\<close>

definition generateFinancialProjections :: "financials_tl BusinessCaseData \<Rightarrow> projection list" where
  "generateFinancialProjections v =
     map (\<lambda>yr.
        (let cust = Math_round (initialCount (customers_data v) *
                      (1 + growthRate (customers_data v) / 100) ^ (yr - 1))
         in \<lparr>year = yr, revenue = cust * arpu (customers_data v) * 12, customers = cust,
              opex = tl_opex (financials v) * 1.1 ^ (yr - 1)\<rparr>))
       [1 ..< Suc (nat \<lfloor>projectTimelineYears (financials v)\<rfloor>)]"

record TimelineMetrics =
  tl_npv :: real
  tl_roi :: "real option"
  tl_paybackPeriod :: real
  tl_breakEvenPoint :: "real option"
  tl_cac :: "real option"
  tl_clv :: real
  tl_grossMargin :: "real option list"
  tl_operatingMargin :: "real option list"
  tl_ebitda :: "real option list"
  tl_workingCapital :: "real list"

text \<open>
  The payback loop of the variant runs over the cash flows, tests \<open>>= 0\<close> and starts from
  the project timeline as default.
\<close>

fun tl_payback_loop :: "real list \<Rightarrow> nat \<Rightarrow> real \<Rightarrow> real \<Rightarrow> real" where
  "tl_payback_loop [] i cum pp = pp"
| "tl_payback_loop (cf # cfs) i cum pp =
     (let cum' = cum + cf
      in if cum' \<ge> 0 then real (i + 1) else tl_payback_loop cfs (i + 1) cum' pp)"

text \<open>
  \<open>calculateFinancialMetrics(data, projections)\<close> of the variant.  Reading
  \<open>projections[0].customers\<close> of an empty array throws a \<open>TypeError\<close>.
\<close>

definition tl_calculateFinancialMetrics ::
  "financials_tl BusinessCaseData \<Rightarrow> projection list \<Rightarrow> thrown + TimelineMetrics" where
  "tl_calculateFinancialMetrics v projections =
     (let initialInvestment = tl_capex (financials v);
          discountRate = 0.1;
          cashFlows = map (\<lambda>p. revenue p - opex p) projections;
          npv_v = reduce_indexed (\<lambda>acc cf i. acc + cf / (1 + discountRate) ^ (i + 1))
                    cashFlows 0 (- initialInvestment);
          totalRevenue = foldl (\<lambda>acc p. acc + revenue p) 0 projections;
          totalCosts = initialInvestment + foldl (\<lambda>acc p. acc + opex p) 0 projections;
          roi_v = map_option (\<lambda>q. q * 100) (js_div (totalRevenue - totalCosts) totalCosts);
          pp = tl_payback_loop cashFlows 0 (- initialInvestment)
                 (projectTimelineYears (financials v));
          averageRevenuePerCustomer = arpu (customers_data v) * 12;
          firstYearOpex = tl_opex (financials v);
          breakEven = map_option Math_ceil
                        (js_div (firstYearOpex + initialInvestment) averageRevenuePerCustomer);
          marketingCost = firstYearOpex * 0.3
      in case projections of
           [] \<Rightarrow> Inl (Error (js ''TypeError''))
         | p0 # _ \<Rightarrow>
             Inr \<lparr>tl_npv = npv_v,
                  tl_roi = roi_v,
                  tl_paybackPeriod = pp,
                  tl_breakEvenPoint = breakEven,
                  tl_cac = js_div marketingCost (customers p0),
                  tl_clv = averageRevenuePerCustomer * 3,
                  tl_grossMargin = map (\<lambda>p. map_option (\<lambda>q. q * 100)
                                     (js_div (revenue p - opex p * 0.6) (revenue p))) projections,
                  tl_operatingMargin = map (\<lambda>p. map_option (\<lambda>q. q * 100)
                                     (js_div (revenue p - opex p) (revenue p))) projections,
                  tl_ebitda = map (\<lambda>p. map_option (\<lambda>q. q * 100)
                                     (js_div (revenue p - opex p) (revenue p))) projections,
                  tl_workingCapital = map (\<lambda>p. revenue p * 0.2) projections\<rparr>)"

section \<open>JSON values\<close>

datatype json =
    JNull
  | JBool bool
  | JNum real
  | JStr js_string
  | JArr "json list"
  | JObj "(js_string \<times> json) list"

text \<open>Reading a property of a parsed object: \<open>None\<close> is \<open>undefined\<close>.\<close>

definition get_prop :: "(js_string \<times> json) list \<Rightarrow> string \<Rightarrow> json option" where
  "get_prop kvs k = map_of kvs (js k)"

text \<open>
  Assigning a property: an existing key keeps its place, a new key goes to the end.
\<close>

fun set_prop :: "(js_string \<times> json) list \<Rightarrow> js_string \<Rightarrow> json \<Rightarrow> (js_string \<times> json) list" where
  "set_prop [] k v = [(k, v)]"
| "set_prop ((k', v') # kvs) k v =
     (if k' = k then (k, v) # kvs else (k', v') # set_prop kvs k v)"

text \<open>Truthiness of a property value, as tested by \<open>!x\<close> and \<open>x || y\<close>.\<close>

fun truthy :: "json option \<Rightarrow> bool" where
  "truthy None = False"
| "truthy (Some JNull) = False"
| "truthy (Some (JBool b)) = b"
| "truthy (Some (JNum x)) = (x \<noteq> 0)"
| "truthy (Some (JStr t)) = (t \<noteq> [])"
| "truthy (Some (JArr xs)) = True"
| "truthy (Some (JObj kvs)) = True"

fun isArray :: "json option \<Rightarrow> bool" where
  "isArray (Some (JArr xs)) = True"
| "isArray _ = False"

text \<open>A number as \<open>JSON.stringify\<close> writes it: a non-finite number becomes \<open>null\<close>.\<close>

definition num_json :: "real option \<Rightarrow> json" where
  "num_json x = (case x of None \<Rightarrow> JNull | Some r \<Rightarrow> JNum r)"

definition projection_json :: "projection \<Rightarrow> json" where
  "projection_json p =
     JObj [(js ''year'', JNum (real (year p))), (js ''revenue'', JNum (revenue p)),
           (js ''customers'', JNum (customers p)), (js ''opex'', JNum (opex p))]"

definition metrics_json :: "FinancialMetrics \<Rightarrow> json" where
  "metrics_json m =
     JObj [(js ''npv'', JNum (npv m)), (js ''irr'', num_json (irr m)),
           (js ''paybackPeriod'', JNum (real (paybackPeriod m))), (js ''roi'', num_json (roi m))]"

section \<open>Request validation\<close>

text \<open>
  The schema of the generate-report route checks types only: four strings, and two
  nested objects of three numbers each.  Unknown keys are dropped.
\<close>

definition get_string :: "(js_string \<times> json) list \<Rightarrow> string \<Rightarrow> js_string option" where
  "get_string kvs k = (case get_prop kvs k of Some (JStr t) \<Rightarrow> Some t | _ \<Rightarrow> None)"

definition get_number :: "(js_string \<times> json) list \<Rightarrow> string \<Rightarrow> real option" where
  "get_number kvs k = (case get_prop kvs k of Some (JNum x) \<Rightarrow> Some x | _ \<Rightarrow> None)"

definition get_object :: "(js_string \<times> json) list \<Rightarrow> string \<Rightarrow> (js_string \<times> json) list option" where
  "get_object kvs k = (case get_prop kvs k of Some (JObj ob) \<Rightarrow> Some ob | _ \<Rightarrow> None)"

definition parse_financials :: "(js_string \<times> json) list \<Rightarrow> financials_blk option" where
  "parse_financials kvs =
     (case (get_number kvs ''totalCost'', get_number kvs ''capex'', get_number kvs ''opex'') of
        (Some t, Some c, Some ox) \<Rightarrow> Some \<lparr>totalCost = t, capex = c, fin_opex = ox\<rparr>
      | _ \<Rightarrow> None)"

definition parse_customers :: "(js_string \<times> json) list \<Rightarrow> customers_blk option" where
  "parse_customers kvs =
     (case (get_number kvs ''initialCount'', get_number kvs ''growthRate'', get_number kvs ''arpu'') of
        (Some n, Some g, Some a) \<Rightarrow> Some \<lparr>initialCount = n, growthRate = g, arpu = a\<rparr>
      | _ \<Rightarrow> None)"

definition businessCaseSchema_parse :: "json \<Rightarrow> thrown + financials_blk BusinessCaseData" where
  "businessCaseSchema_parse body =
     (case body of
        JObj kvs \<Rightarrow>
          (case (get_string kvs ''projectName'', get_string kvs ''company'',
                 get_string kvs ''country'', get_string kvs ''industry'',
                 Option.bind (get_object kvs ''financials'') parse_financials,
                 Option.bind (get_object kvs ''customers'') parse_customers) of
             (Some pn, Some co, Some cn, Some ind, Some f, Some c) \<Rightarrow>
               Inr \<lparr>projectName = pn, company = co, country = cn, industry = ind,
                    financials = f, customers_data = c\<rparr>
           | _ \<Rightarrow> Inl (Error (js ''ZodError'')))
      | _ \<Rightarrow> Inl (Error (js ''ZodError'')))"










section \<open>Responses of the LLM and the analyses built from them\<close>

text \<open>
  What the route cannot compute itself is an input of the model: the outcome of
  \<open>req.json()\<close>, the outcome of each of the three chat-completion calls (a thrown value,
  or the \<open>content\<close> of the first choice, \<open>None\<close> for \<open>null\<close>), and the built-in functions
  \<open>JSON.parse\<close> and \<open>String\<close>.
\<close>

record env =
  req_json :: "thrown + json"
  market_llm :: "thrown + js_string option"
  risk_llm :: "thrown + js_string option"
  report_llm :: "thrown + js_string option"
  JSON_parse :: "js_string \<Rightarrow> thrown + json"
  String_of :: "json \<Rightarrow> thrown + js_string"

text \<open>Sequencing of statements that may throw: the first thrown value ends the block.\<close>

definition try_bind :: "thrown + 'a \<Rightarrow> ('a \<Rightarrow> thrown + 'b) \<Rightarrow> thrown + 'b" where
  "try_bind r f = (case r of Inl t \<Rightarrow> Inl t | Inr x \<Rightarrow> f x)"

text \<open>\<open>content || '{}'\<close>\<close>

definition or_empty_object :: "js_string option \<Rightarrow> js_string" where
  "or_empty_object content =
     (case content of None \<Rightarrow> js ''{}'' | Some c \<Rightarrow> if c = [] then js ''{}'' else c)"

definition generateMarketAnalysis :: "env \<Rightarrow> thrown + json" where
  "generateMarketAnalysis e =
     try_bind (market_llm e) (\<lambda>content.
       try_bind (cleanJsonResponse (or_empty_object content)) (JSON_parse e))"

record RiskAnalysis =
  risks :: js_string
  impactAssessment :: js_string
  mitigationStrategies :: js_string
  contingencyPlans :: js_string
  riskMonitoringApproach :: js_string

definition bullet :: js_string where
  "bullet = [0x2022]"

text \<open>The record returned when the risk response cannot be parsed.\<close>

definition risk_parse_fallback :: RiskAnalysis where
  "risk_parse_fallback =
     \<lparr>risks =
        bullet @ js '' Market Risk: Potential market volatility\<newline>'' @
        bullet @ js '' Financial Risk: Investment uncertainty\<newline>'' @
        bullet @ js '' Operational Risk: Process inefficiencies\<newline>'' @
        bullet @ js '' Technical Risk: Implementation challenges\<newline>'' @
        bullet @ js '' Regulatory Risk: Compliance requirements'',
      impactAssessment =
        bullet @ js '' High Impact Risks:\<newline>- Market volatility (High)\<newline>- Financial uncertainty (High)\<newline>\<newline>'' @
        bullet @ js '' Medium Impact Risks:\<newline>- Operational inefficiencies (Medium)\<newline>\<newline>'' @
        bullet @ js '' Low Impact Risks:\<newline>- Minor technical issues (Low)'',
      mitigationStrategies =
        bullet @ js '' Diversification of market approach\<newline>'' @
        bullet @ js '' Strong financial controls\<newline>'' @
        bullet @ js '' Regular operational reviews\<newline>'' @
        bullet @ js '' Technical redundancy measures\<newline>'' @
        bullet @ js '' Compliance monitoring'',
      contingencyPlans =
        bullet @ js '' Market backup strategies\<newline>'' @
        bullet @ js '' Financial reserves allocation\<newline>'' @
        bullet @ js '' Operational backup procedures\<newline>'' @
        bullet @ js '' Technical fallback solutions\<newline>'' @
        bullet @ js '' Regulatory compliance plans'',
      riskMonitoringApproach =
        bullet @ js '' Weekly risk reviews\<newline>'' @
        bullet @ js '' Monthly KPI monitoring\<newline>'' @
        bullet @ js '' Quarterly assessments\<newline>'' @
        bullet @ js '' Annual strategic review''\<rparr>"

text \<open>The record returned when the risk request itself fails or has no content.\<close>

definition risk_basic_fallback :: RiskAnalysis where
  "risk_basic_fallback =
     \<lparr>risks =
        bullet @ js '' Market Risk\<newline>'' @
        bullet @ js '' Financial Risk\<newline>'' @
        bullet @ js '' Operational Risk\<newline>'' @
        bullet @ js '' Technical Risk\<newline>'' @
        bullet @ js '' Regulatory Risk'',
      impactAssessment =
        bullet @ js '' High Impact Risks\<newline>'' @
        bullet @ js '' Medium Impact Risks\<newline>'' @
        bullet @ js '' Low Impact Risks'',
      mitigationStrategies =
        bullet @ js '' Risk mitigation strategy 1\<newline>'' @
        bullet @ js '' Risk mitigation strategy 2\<newline>'' @
        bullet @ js '' Risk mitigation strategy 3'',
      contingencyPlans =
        bullet @ js '' Contingency plan 1\<newline>'' @
        bullet @ js '' Contingency plan 2\<newline>'' @
        bullet @ js '' Contingency plan 3'',
      riskMonitoringApproach =
        bullet @ js '' Regular monitoring\<newline>'' @
        bullet @ js '' KPI tracking\<newline>'' @
        bullet @ js '' Periodic reviews''\<rparr>"

text \<open>\<open>.replace(/\\n/g, '\n')\<close>: each backslash followed by \<open>n\<close> becomes a line feed.\<close>

fun replace_escaped_newlines :: "js_string \<Rightarrow> js_string" where
  "replace_escaped_newlines (a # b # rest) =
     (if a = 0x5C \<and> b = 0x6E then 0x0A # replace_escaped_newlines rest
      else a # replace_escaped_newlines (b # rest))"
| "replace_escaped_newlines xs = xs"

definition requiredFields :: "string list" where
  "requiredFields = [''risks'', ''impactAssessment'', ''mitigationStrategies'',
     ''contingencyPlans'', ''riskMonitoringApproach'']"

definition check_required :: "(js_string \<times> json) list \<Rightarrow> thrown + unit" where
  "check_required kvs =
     (case find (\<lambda>field. get_prop kvs field = None) requiredFields of
        Some field \<Rightarrow> Inl (Error (js ''Missing required field: '' @ js field))
      | None \<Rightarrow> Inr ())"

text \<open>\<open>String(parsedResponse.field).replace(/\\n/g, '\n')\<close>\<close>

definition field_text :: "env \<Rightarrow> (js_string \<times> json) list \<Rightarrow> string \<Rightarrow> thrown + js_string" where
  "field_text e kvs k =
     (case get_prop kvs k of
        None \<Rightarrow> Inr (js ''undefined'')
      | Some v \<Rightarrow> try_bind (String_of e v) (\<lambda>t. Inr (replace_escaped_newlines t)))"

text \<open>
  The inner \<open>try\<close> block of \<open>generateRiskAnalysis\<close>.  The operator \<open>in\<close> throws a
  \<open>TypeError\<close> on a value that is not an object; an array has none of the fields.
\<close>

definition risk_try :: "env \<Rightarrow> js_string \<Rightarrow> thrown + RiskAnalysis" where
  "risk_try e content =
     try_bind (cleanJsonResponse content) (\<lambda>cleanedContent.
     try_bind (JSON_parse e cleanedContent) (\<lambda>parsedResponse.
       case parsedResponse of
         JObj kvs \<Rightarrow>
           try_bind (check_required kvs) (\<lambda>_.
           try_bind (field_text e kvs ''risks'') (\<lambda>r.
           try_bind (field_text e kvs ''impactAssessment'') (\<lambda>i.
           try_bind (field_text e kvs ''mitigationStrategies'') (\<lambda>m.
           try_bind (field_text e kvs ''contingencyPlans'') (\<lambda>c.
           try_bind (field_text e kvs ''riskMonitoringApproach'') (\<lambda>a.
             Inr \<lparr>risks = r, impactAssessment = i, mitigationStrategies = m,
                  contingencyPlans = c, riskMonitoringApproach = a\<rparr>))))))
       | JArr xs \<Rightarrow> Inl (Error (js ''Missing required field: risks''))
       | _ \<Rightarrow> Inl (Error (js ''TypeError''))))"

text \<open>The outer \<open>try\<close> block of \<open>generateRiskAnalysis\<close>, and the function itself.\<close>

definition risk_outer_try :: "env \<Rightarrow> thrown + RiskAnalysis" where
  "risk_outer_try e =
     try_bind (risk_llm e) (\<lambda>content.
       case content of
         None \<Rightarrow> Inl (Error (js ''Empty response from OpenAI''))
       | Some c \<Rightarrow>
           if c = [] then Inl (Error (js ''Empty response from OpenAI''))
           else Inr (case risk_try e c of
                       Inl parseError \<Rightarrow> risk_parse_fallback
                     | Inr r \<Rightarrow> r))"

definition generateRiskAnalysis :: "env \<Rightarrow> RiskAnalysis" where
  "generateRiskAnalysis e =
     (case risk_outer_try e of Inl error \<Rightarrow> risk_basic_fallback | Inr r \<Rightarrow> r)"

definition risk_json :: "RiskAnalysis \<Rightarrow> json" where
  "risk_json r =
     JObj [(js ''risks'', JStr (risks r)),
           (js ''impactAssessment'', JStr (impactAssessment r)),
           (js ''mitigationStrategies'', JStr (mitigationStrategies r)),
           (js ''contingencyPlans'', JStr (contingencyPlans r)),
           (js ''riskMonitoringApproach'', JStr (riskMonitoringApproach r))]"

section \<open>The route handlers\<close>

datatype resp_body = JsonBody json | FileBody "8 word list"

record response =
  status :: nat
  content_type :: string
  body :: resp_body

text \<open>
  \<open>parsedResult.financialAnalysis.metrics = financialMetrics\<close>: a \<open>TypeError\<close> when
  \<open>financialAnalysis\<close> is missing, \<open>null\<close> or (the module being strict code) a primitive
  value; a property set on an array is not serialised.
\<close>

definition set_metrics :: "(js_string \<times> json) list \<Rightarrow> FinancialMetrics \<Rightarrow> thrown + (js_string \<times> json) list" where
  "set_metrics kvs fm =
     (case get_prop kvs ''financialAnalysis'' of
        Some (JObj fa) \<Rightarrow>
          Inr (set_prop kvs (js ''financialAnalysis'')
                 (JObj (set_prop fa (js ''metrics'') (metrics_json fm))))
      | Some (JArr xs) \<Rightarrow> Inr kvs
      | _ \<Rightarrow> Inl (Error (js ''TypeError'')))"

text \<open>The inner \<open>try\<close> block of \<open>POST\<close>: parse the report and put in the computed values.\<close>

definition report_try ::
  "env \<Rightarrow> projection list \<Rightarrow> FinancialMetrics \<Rightarrow> json \<Rightarrow> RiskAnalysis \<Rightarrow> js_string \<Rightarrow>
   thrown + response" where
  "report_try e projections financialMetrics marketAnalysis riskAnalysis result =
     try_bind (cleanJsonResponse result) (\<lambda>cleanedResult.
     try_bind (JSON_parse e cleanedResult) (\<lambda>parsedResult.
       case parsedResult of
         JNull \<Rightarrow> Inl (Error (js ''TypeError''))
       | JObj kvs \<Rightarrow>
           if \<not> truthy (get_prop kvs ''executiveSummary'') \<or>
              \<not> isArray (get_prop kvs ''financialProjections'')
           then Inl (Error (js ''Invalid report structure''))
           else
             try_bind
               (set_metrics
                  (set_prop kvs (js ''financialProjections'')
                     (JArr (map projection_json projections)))
                  financialMetrics)
               (\<lambda>kvs'.
                  Inr \<lparr>status = 200, content_type = ''application/json'',
                       body = JsonBody (JObj
                         (set_prop (set_prop kvs' (js ''marketAnalysis'') marketAnalysis)
                            (js ''riskAssessment'') (risk_json riskAnalysis)))\<rparr>)
       | _ \<Rightarrow> Inl (Error (js ''Invalid report structure''))))"

definition message_or :: "thrown \<Rightarrow> string \<Rightarrow> js_string" where
  \<comment> \<open>\<open>error instanceof Error ? error.message : dflt\<close>\<close>
  "message_or t dflt = (case t of Error m \<Rightarrow> m | NonError \<Rightarrow> js dflt)"

text \<open>The outer \<open>try\<close> block of \<open>POST\<close> in the generate-report route.\<close>

definition POST_try :: "env \<Rightarrow> thrown + response" where
  "POST_try e =
     try_bind (req_json e) (\<lambda>body.
     try_bind (businessCaseSchema_parse body) (\<lambda>validatedData.
       let projections = calculateFinancialProjections (projection_input_of validatedData);
           financialMetrics =
             calculateFinancialMetrics projections (capex (financials validatedData))
       in
     try_bind (generateMarketAnalysis e) (\<lambda>marketAnalysis.
       let riskAnalysis = generateRiskAnalysis e
       in
     try_bind (report_llm e) (\<lambda>result.
       case result of
         None \<Rightarrow> Inl (Error (js ''No response from OpenAI''))
       | Some res \<Rightarrow>
           if res = [] then Inl (Error (js ''No response from OpenAI''))
           else
             (case report_try e projections financialMetrics marketAnalysis riskAnalysis res of
                Inr resp \<Rightarrow> Inr resp
              | Inl parseError \<Rightarrow>
                  Inl (Error (js ''Failed to parse OpenAI response as JSON. Error: '' @
                         message_or parseError ''Unknown parsing error'')))))))"

definition POST :: "env \<Rightarrow> response" where
  "POST e =
     (case POST_try e of
        Inr resp \<Rightarrow> resp
      | Inl error \<Rightarrow>
          \<lparr>status = 500, content_type = ''application/json'',
           body = JsonBody (JObj
             [(js ''error'', JStr (js ''Failed to generate report'')),
              (js ''details'', JStr (message_or error ''Unknown error''))])\<rparr>)"

text \<open>
  The export routes read the report from the request and hand it to a document
  library (\<open>jsPDF\<close>, \<open>docx\<close>); building the document is one step that may throw.
\<close>

record export_env =
  export_req_json :: "thrown + json"
  render :: "json \<Rightarrow> thrown + 8 word list"

definition export_pdf_POST :: "export_env \<Rightarrow> response" where
  "export_pdf_POST x =
     (case try_bind (export_req_json x) (render x) of
        Inr pdfBuffer \<Rightarrow>
          \<lparr>status = 200, content_type = ''application/pdf'', body = FileBody pdfBuffer\<rparr>
      | Inl error \<Rightarrow>
          \<lparr>status = 500, content_type = ''application/json'',
           body = JsonBody (JObj [(js ''error'', JStr (js ''Failed to generate PDF''))])\<rparr>)"

definition export_docx_POST :: "export_env \<Rightarrow> response" where
  "export_docx_POST x =
     (case try_bind (export_req_json x) (render x) of
        Inr buffer \<Rightarrow>
          \<lparr>status = 200,
           content_type =
             ''application/vnd.openxmlformats-officedocument.wordprocessingml.document'',
           body = FileBody buffer\<rparr>
      | Inl error \<Rightarrow>
          \<lparr>status = 500, content_type = ''application/json'',
           body = JsonBody (JObj [(js ''error'', JStr (js ''Failed to generate DOCX''))])\<rparr>)"

definition has_field :: "response \<Rightarrow> string \<Rightarrow> bool" where
  "has_field r k = (case body r of JsonBody (JObj kvs) \<Rightarrow> get_prop kvs k \<noteq> None | _ \<Rightarrow> False)"

section \<open>The cost breakdown of the report preview\<close>

text \<open>
  \<open>data.financialProjections[i].opex\<close>: an index outside the array yields \<open>undefined\<close>,
  and reading \<open>opex\<close> of it throws a \<open>TypeError\<close>.
\<close>

definition opex_of_entry :: "projection list \<Rightarrow> nat \<Rightarrow> thrown + real" where
  "opex_of_entry ps i = (if i < length ps then Inr (opex (ps ! i)) else Inl (Error (js ''TypeError'')))"

definition costBreakdown :: "projection list \<Rightarrow> thrown + (string \<times> real) list" where
  "costBreakdown ps =
     try_bind (opex_of_entry ps 0) (\<lambda>c.
     try_bind (opex_of_entry ps 0) (\<lambda>y1.
     try_bind (opex_of_entry ps 1) (\<lambda>y2.
     try_bind (opex_of_entry ps 2) (\<lambda>y3.
     try_bind (opex_of_entry ps 3) (\<lambda>y4.
     try_bind (opex_of_entry ps 4) (\<lambda>y5.
       Inr [(''CAPEX'', c), (''Year 1 OPEX'', y1), (''Year 2 OPEX'', y2),
            (''Year 3 OPEX'', y3), (''Year 4 OPEX'', y4), (''Year 5 OPEX'', y5)]))))))"

section \<open>Example requests and environments\<close>


definition parse_empty_object :: "js_string \<Rightarrow> thrown + json" where
  "parse_empty_object t =
     (if t = js ''{}'' then Inr (JObj []) else Inl (Error (js ''SyntaxError'')))"

definition string_of_json :: "json \<Rightarrow> thrown + js_string" where
  "string_of_json v = (case v of JStr t \<Rightarrow> Inr t | _ \<Rightarrow> Inl (Error (js ''TypeError'')))"

text \<open>The request body is not JSON: \<open>req.json()\<close> rejects.\<close>

definition env_bad_request :: env where
  "env_bad_request =
     \<lparr>req_json = Inl (Error (js ''Unexpected end of JSON input'')),
      market_llm = Inr (Some (js ''{}'')), risk_llm = Inr (Some (js ''{}'')),
      report_llm = Inr (Some (js ''{}'')),
      JSON_parse = parse_empty_object, String_of = string_of_json\<rparr>"



definition render_nothing :: "json \<Rightarrow> thrown + 8 word list" where
  "render_nothing data = Inr []"

definition export_bad_request :: export_env where
  "export_bad_request =
     \<lparr>export_req_json = Inl (Error (js ''Unexpected end of JSON input'')),
      render = render_nothing\<rparr>"

section \<open>Properties of the projections\<close>

lemma calculateFinancialProjections_closed:
  "calculateFinancialProjections d = map (entry_at d) [0, 1, 2, 3, 4]"
  unfolding calculateFinancialProjections_def
  by (simp add: projections_loop.simps Let_def entry_at_def power2_eq_square
        power3_eq_cube power4_eq_xxxx mult.assoc)







text \<open>
  Claim C9.  Whatever the input, \<open>calculateFinancialProjections\<close> returns exactly five
  entries whose \<open>year\<close> fields are 1 to 5 in this order; hence the reads of
  \<open>financialProjections[0]\<close> to \<open>financialProjections[4]\<close> in the cost breakdown of the
  report preview are in bounds and the breakdown is built without a \<open>TypeError\<close>.
\<close>

theorem projections_five_years:
  "length (calculateFinancialProjections d) = 5 \<and>
   map year (calculateFinancialProjections d) = [1, 2, 3, 4, 5] \<and>
   (\<exists>cb. costBreakdown (calculateFinancialProjections d) = Inr cb)"
  by (simp add: calculateFinancialProjections_closed entry_at_def costBreakdown_def
        opex_of_entry_def try_bind_def)




section \<open>Properties of the financial metrics\<close>

lemma example_projections:
  "calculateFinancialProjections
     \<lparr>pi_initialCount = 10, pi_growthRate = 0, pi_arpu = 5, pi_opex = 100\<rparr> =
   [\<lparr>year = 1, revenue = 600, customers = 10, opex = 100\<rparr>,
    \<lparr>year = 2, revenue = 600, customers = 10, opex = 110\<rparr>,
    \<lparr>year = 3, revenue = 600, customers = 10, opex = 121\<rparr>,
    \<lparr>year = 4, revenue = 600, customers = 10, opex = 133\<rparr>,
    \<lparr>year = 5, revenue = 600, customers = 10, opex = 146\<rparr>]"
  by (simp add: calculateFinancialProjections_closed entry_at_def Math_round_def
        power2_eq_square power3_eq_cube power4_eq_xxxx)







text \<open>
  Claim C4.  The two versions of \<open>calculateFinancialMetrics\<close> disagree on a valid input.
  On the projections of a business case with 10 customers, no growth, an ARPU of 5 and
  an initial OPEX of 100, and a capex of 990, the main route returns an ROI of 141 (net
  profit over capex, rounded) and a payback period of 3, the timeline-years variant an ROI
  of 87.5 (net profit over capex plus total OPEX) and a payback period of 2 (the
  cumulative cash flow is exactly 0 after year 2).  With a capex of 10000, never paid
  back, the main route returns its default 0 and the variant the project timeline, 5.
\<close>

theorem metrics_variants_disagree:
  "\<exists>m m' n n'.
     tl_calculateFinancialMetrics
       \<lparr>projectName = js ''Fibre'', company = js ''Acme'', country = js ''NL'',
        industry = js ''Telecom'',
        financials = \<lparr>projectTimelineYears = 5, tl_capex = 990, tl_opex = 100\<rparr>,
        customers_data = \<lparr>initialCount = 10, growthRate = 0, arpu = 5\<rparr>\<rparr>
       (calculateFinancialProjections
          \<lparr>pi_initialCount = 10, pi_growthRate = 0, pi_arpu = 5, pi_opex = 100\<rparr>) = Inr m' \<and>
     calculateFinancialMetrics
       (calculateFinancialProjections
          \<lparr>pi_initialCount = 10, pi_growthRate = 0, pi_arpu = 5, pi_opex = 100\<rparr>) 990 = m \<and>
     roi m = Some 141 \<and> tl_roi m' = Some (175 / 2) \<and>
     paybackPeriod m = 3 \<and> tl_paybackPeriod m' = 2 \<and>
     tl_calculateFinancialMetrics
       \<lparr>projectName = js ''Fibre'', company = js ''Acme'', country = js ''NL'',
        industry = js ''Telecom'',
        financials = \<lparr>projectTimelineYears = 5, tl_capex = 10000, tl_opex = 100\<rparr>,
        customers_data = \<lparr>initialCount = 10, growthRate = 0, arpu = 5\<rparr>\<rparr>
       (calculateFinancialProjections
          \<lparr>pi_initialCount = 10, pi_growthRate = 0, pi_arpu = 5, pi_opex = 100\<rparr>) = Inr n' \<and>
     calculateFinancialMetrics
       (calculateFinancialProjections
          \<lparr>pi_initialCount = 10, pi_growthRate = 0, pi_arpu = 5, pi_opex = 100\<rparr>) 10000 = n \<and>
     paybackPeriod n = 0 \<and> tl_paybackPeriod n' = 5"
  unfolding example_projections
  by (simp add: calculateFinancialMetrics_def tl_calculateFinancialMetrics_def Let_def
        js_div_def Math_round_def)

section \<open>Properties of the form schema\<close>




section \<open>Properties of \<open>cleanJsonResponse\<close>\<close>

lemma indexOf_absent: "indexOf t c = - 1 \<longleftrightarrow> c \<notin> set t"
proof (induction t)
  case Nil
  show ?case by simp
next
  case (Cons x t)
  have ge: "indexOf t c \<ge> - 1" for t
    by (induction t) (auto simp: Let_def)
  have "indexOf t c + 1 \<noteq> - 1"
    using ge [of t] by arith
  with Cons show ?case by (auto simp: Let_def)
qed

lemma indexOf_first:
  "c \<notin> set p \<Longrightarrow> indexOf (p @ c # q) c = int (length p)"
proof (induction p)
  case Nil
  show ?case by simp
next
  case (Cons x p)
  then show ?case by (auto simp: Let_def)
qed

lemma lastIndexOf_absent: "lastIndexOf t c = - 1 \<longleftrightarrow> c \<notin> set t"
proof (induction t)
  case Nil
  show ?case by simp
next
  case (Cons x t)
  have ge: "lastIndexOf t c \<ge> - 1" for t
    by (induction t) (auto simp: Let_def)
  have "lastIndexOf t c + 1 \<noteq> - 1"
    using ge [of t] by arith
  with Cons show ?case by (auto simp: Let_def)
qed

lemma lastIndexOf_last:
  "c \<notin> set q \<Longrightarrow> lastIndexOf (p @ c # q) c = int (length p)"
proof (induction p)
  case Nil
  then show ?case by (simp add: lastIndexOf_absent Let_def)
next
  case (Cons x p)
  then show ?case by (simp add: Let_def)
qed

lemma slice_inside:
  "a \<le> length t \<Longrightarrow> b \<le> length t \<Longrightarrow>
   slice t (int a) (int b) = take (b - a) (drop a t)"
  by (simp add: slice_def Let_def min_def nat_diff_distrib')

text \<open>
  Claim C8.  \<open>cleanJsonResponse\<close> throws its error \<open>No valid JSON object found in response\<close>
  exactly when the text has no \<open>{\<close> or no \<open>}\<close>.  Otherwise, with \<open>p\<close> the text before the
  first \<open>{\<close> and \<open>p'\<close> the text before the last \<open>}\<close>, it returns the code units from
  position \<open>length p\<close> to position \<open>length p'\<close> inclusive; when the last \<open>}\<close> comes before
  the first \<open>{\<close> this is the empty string, which is not a JSON object.
\<close>

theorem cleanJsonResponse_spec:
  "(cleanJsonResponse text = Inl (Error (js ''No valid JSON object found in response''))
      \<longleftrightarrow> lbrace \<notin> set text \<or> rbrace \<notin> set text) \<and>
   (text = p @ lbrace # q \<and> lbrace \<notin> set p \<and> text = p' @ rbrace # q' \<and> rbrace \<notin> set q' \<longrightarrow>
      cleanJsonResponse text = Inr (take (length p' + 1 - length p) (drop (length p) text)) \<and>
      (length p' < length p \<longrightarrow> cleanJsonResponse text = Inr []))"
proof (intro conjI impI)
  show "cleanJsonResponse text = Inl (Error (js ''No valid JSON object found in response''))
      \<longleftrightarrow> lbrace \<notin> set text \<or> rbrace \<notin> set text"
    by (simp add: cleanJsonResponse_def Let_def indexOf_absent lastIndexOf_absent)
next
  assume h: "text = p @ lbrace # q \<and> lbrace \<notin> set p \<and> text = p' @ rbrace # q' \<and> rbrace \<notin> set q'"
  then have t1: "text = p @ lbrace # q" and np: "lbrace \<notin> set p"
    and t2: "text = p' @ rbrace # q'" and nq: "rbrace \<notin> set q'"
    by blast+
  have i: "indexOf text lbrace = int (length p)"
    by (subst t1) (rule indexOf_first[OF np])
  have l: "lastIndexOf text rbrace = int (length p')"
    by (subst t2) (rule lastIndexOf_last[OF nq])
  have lp: "length p \<le> length text"
    by (subst t1) simp
  have lp': "length p' + 1 \<le> length text"
    by (subst t2) simp
  have "slice text (int (length p)) (int (length p' + 1)) =
          take (length p' + 1 - length p) (drop (length p) text)"
    using lp lp' by (rule slice_inside)
  then show r: "cleanJsonResponse text = Inr (take (length p' + 1 - length p) (drop (length p) text))"
    by (simp add: cleanJsonResponse_def Let_def i l add.commute)
  show "cleanJsonResponse text = Inr []" if "length p' < length p"
    using r that by simp
qed

theorem cleanJsonResponse_spec_witness:
  "js ''ab{c}d'' = js ''ab'' @ lbrace # js ''c}d'' \<and> lbrace \<notin> set (js ''ab'') \<and>
   js ''ab{c}d'' = js ''ab{c'' @ rbrace # js ''d'' \<and> rbrace \<notin> set (js ''d'') \<and>
   cleanJsonResponse (js ''ab{c}d'') = Inr (js ''{c}'') \<and>
   js ''}{'' = js ''}'' @ lbrace # [] \<and> lbrace \<notin> set (js ''}'') \<and>
   js ''}{'' = [] @ rbrace # js ''{'' \<and> rbrace \<notin> set (js ''{'') \<and>
   length ([] :: js_string) < length (js ''}'') \<and>
   cleanJsonResponse (js ''}{'') = Inr []"
  using cleanJsonResponse_spec [of "js ''ab{c}d''" "js ''ab''" "js ''c}d''" "js ''ab{c''" "js ''d''"]
    cleanJsonResponse_spec [of "js ''}{''" "js ''}''" "[]" "[]" "js ''{''"]
  by (simp add: js_def lbrace_def rbrace_def)

section \<open>Properties of the route handlers\<close>


lemma POST_thrown:
  "POST_try e = Inl t \<Longrightarrow>
   POST e = \<lparr>status = 500, content_type = ''application/json'',
           body = JsonBody (JObj
             [(js ''error'', JStr (js ''Failed to generate report'')),
              (js ''details'', JStr (message_or t ''Unknown error''))])\<rparr>"
  by (simp add: POST_def)













lemma error_response_fields:
  "has_field \<lparr>status = s, content_type = c,
      body = JsonBody (JObj [(js ''error'', x), (js ''details'', y)])\<rparr> ''error'' \<and>
   has_field \<lparr>status = s, content_type = c,
      body = JsonBody (JObj [(js ''error'', x), (js ''details'', y)])\<rparr> ''details''"
  by (simp add: has_field_def get_prop_def js_def)

lemma export_error_fields:
  "has_field \<lparr>status = s, content_type = c,
      body = JsonBody (JObj [(js ''error'', x)])\<rparr> ''error'' \<and>
   \<not> has_field \<lparr>status = s, content_type = c,
      body = JsonBody (JObj [(js ''error'', x)])\<rparr> ''details''"
  by (simp add: has_field_def get_prop_def js_def)

lemma env_bad_request_throws:
  "POST_try env_bad_request = Inl (Error (js ''Unexpected end of JSON input''))"
  by (simp add: POST_try_def env_bad_request_def try_bind_def)

lemma export_bad_request_throws:
  "try_bind (export_req_json export_bad_request) (render export_bad_request) =
     Inl (Error (js ''Unexpected end of JSON input''))"
  by (simp add: export_bad_request_def try_bind_def)





text \<open>
  Claim C5, as amended.  Whenever the body of \<open>POST\<close> in the generate-report route
  throws, the handler answers with status 500 and a JSON body that has the fields
  \<open>error\<close> and \<open>details\<close>, the latter holding the message of the thrown error.  Whenever
  the body of an export route (PDF or DOCX) throws, the handler answers with status 500
  and a JSON body that has the field \<open>error\<close> only.
\<close>

theorem route_error_responses:
  "(POST_try e = Inl t \<longrightarrow>
      status (POST e) = 500 \<and> has_field (POST e) ''error'' \<and> has_field (POST e) ''details'' \<and>
      body (POST e) = JsonBody (JObj
        [(js ''error'', JStr (js ''Failed to generate report'')),
         (js ''details'', JStr (message_or t ''Unknown error''))])) \<and>
   (try_bind (export_req_json x) (render x) = Inl t' \<longrightarrow>
      status (export_pdf_POST x) = 500 \<and>
      body (export_pdf_POST x) = JsonBody (JObj [(js ''error'', JStr (js ''Failed to generate PDF''))]) \<and>
      has_field (export_pdf_POST x) ''error'' \<and> \<not> has_field (export_pdf_POST x) ''details'' \<and>
      status (export_docx_POST x) = 500 \<and>
      body (export_docx_POST x) = JsonBody (JObj [(js ''error'', JStr (js ''Failed to generate DOCX''))]) \<and>
      has_field (export_docx_POST x) ''error'' \<and> \<not> has_field (export_docx_POST x) ''details'')"
proof (intro conjI impI)
  assume h: "POST_try e = Inl t"
  note r = POST_thrown [OF h]
  show "status (POST e) = 500" by (simp add: r)
  show "has_field (POST e) ''error''" unfolding r using error_response_fields by blast
  show "has_field (POST e) ''details''" unfolding r using error_response_fields by blast
  show "body (POST e) = JsonBody (JObj
        [(js ''error'', JStr (js ''Failed to generate report'')),
         (js ''details'', JStr (message_or t ''Unknown error''))])" by (simp add: r)
next
  assume h: "try_bind (export_req_json x) (render x) = Inl t'"
  have p: "export_pdf_POST x = \<lparr>status = 500, content_type = ''application/json'',
           body = JsonBody (JObj [(js ''error'', JStr (js ''Failed to generate PDF''))])\<rparr>"
    by (simp add: export_pdf_POST_def h)
  have d: "export_docx_POST x = \<lparr>status = 500, content_type = ''application/json'',
           body = JsonBody (JObj [(js ''error'', JStr (js ''Failed to generate DOCX''))])\<rparr>"
    by (simp add: export_docx_POST_def h)
  show "status (export_pdf_POST x) = 500" by (simp add: p)
  show "body (export_pdf_POST x) = JsonBody (JObj [(js ''error'', JStr (js ''Failed to generate PDF''))])"
    by (simp add: p)
  show "has_field (export_pdf_POST x) ''error''" unfolding p using export_error_fields by blast
  show "\<not> has_field (export_pdf_POST x) ''details''" unfolding p using export_error_fields by blast
  show "status (export_docx_POST x) = 500" by (simp add: d)
  show "body (export_docx_POST x) = JsonBody (JObj [(js ''error'', JStr (js ''Failed to generate DOCX''))])"
    by (simp add: d)
  show "has_field (export_docx_POST x) ''error''" unfolding d using export_error_fields by blast
  show "\<not> has_field (export_docx_POST x) ''details''" unfolding d using export_error_fields by blast
qed

theorem route_error_responses_witness:
  "POST_try env_bad_request = Inl (Error (js ''Unexpected end of JSON input'')) \<and>
   try_bind (export_req_json export_bad_request) (render export_bad_request) =
     Inl (Error (js ''Unexpected end of JSON input'')) \<and>
   status (POST env_bad_request) = 500 \<and>
   body (POST env_bad_request) = JsonBody (JObj
        [(js ''error'', JStr (js ''Failed to generate report'')),
         (js ''details'', JStr (js ''Unexpected end of JSON input''))]) \<and>
   status (export_pdf_POST export_bad_request) = 500 \<and>
   \<not> has_field (export_pdf_POST export_bad_request) ''details'' \<and>
   \<not> has_field (export_docx_POST export_bad_request) ''details''"
  using route_error_responses [of env_bad_request "Error (js ''Unexpected end of JSON input'')"
              export_bad_request "Error (js ''Unexpected end of JSON input'')"]
    env_bad_request_throws export_bad_request_throws
  by (simp add: message_or_def)

text \<open>
  The claim as stated also promises a \<open>details\<close> field from the export routes.  On a
  request whose body cannot be read, both export routes answer 500 without it.
\<close>

theorem export_error_without_details:
  "try_bind (export_req_json export_bad_request) (render export_bad_request) =
     Inl (Error (js ''Unexpected end of JSON input'')) \<and>
   status (export_pdf_POST export_bad_request) = 500 \<and>
   \<not> has_field (export_pdf_POST export_bad_request) ''details'' \<and>
   status (export_docx_POST export_bad_request) = 500 \<and>
   \<not> has_field (export_docx_POST export_bad_request) ''details''"
  by (simp add: export_bad_request_def try_bind_def export_pdf_POST_def export_docx_POST_def
        has_field_def get_prop_def js_def)




end
